theory Spec2Isabelle
  imports Main
begin

section \<open>Build-time diagnostics\<close>

text \<open>
  The header \<^verbatim>\<open>bounded_type.hpp\<close> rejects ill-formed uses while the program is built:
  by a \<^verbatim>\<open>static_assert\<close> that carries a message, or because no declaration matches a
  call (a constructor or function template removed by \<^verbatim>\<open>enable_if\<close>, a nested
  \<^verbatim>\<open>::type\<close> that does not exist, an overload that was never written). Instantiating a
  template is modelled as a function of the template arguments that returns either such a
  diagnostic (\<open>Inl\<close>) or the instantiated entity (\<open>Inr\<close>). A diagnostic that depends on
  the template arguments only, and on no run-time value, is a build-time failure.
\<close>

datatype build_error =
    static_assert_failed string
  | no_matching_function

section \<open>Bound representation\<close>

text \<open>
  The template argument \<^verbatim>\<open>BoundConstant\<close> is either the marker \<^verbatim>\<open>dynamic_bound\<close> or a
  constant type whose nested \<^verbatim>\<open>value\<close> is the bound. The type variable \<open>'a\<close> holds the
  values the program compares: the bounds, of type \<^verbatim>\<open>T\<close>, and the candidates, of any type
  \<^verbatim>\<open>U\<close> comparable to \<^verbatim>\<open>T\<close>. Its relations \<open><\<close> and \<open>\<le>\<close> are the comparison
  operators of the program between such values; the sort \<open>ord\<close> assumes no law about them.
\<close>

datatype 'a bound_constant = dynamic_bound | static_constant 'a

text \<open>\<^verbatim>\<open>detail::is_dynamic<BoundConstant>\<close>: \<^verbatim>\<open>std::is_same<BoundConstant, dynamic_bound>\<close>.\<close>

fun is_dynamic :: "'a bound_constant \<Rightarrow> bool" where
  "is_dynamic dynamic_bound = True"
| "is_dynamic (static_constant k) = False"

text \<open>
  \<^verbatim>\<open>detail::Base<T, BoundConstant>\<close>, the base class of a predicate: \<^verbatim>\<open>Wrapper<T>\<close> with
  its field \<^verbatim>\<open>value\<close> when the bound is dynamic, the constant type itself (no field, the
  bound is its static member \<^verbatim>\<open>value\<close>) otherwise.
\<close>

datatype 'a Base = Wrapper 'a | Constant_base 'a

text \<open>\<^verbatim>\<open>Base::value\<close>.\<close>

fun Base_value :: "'a Base \<Rightarrow> 'a" where
  "Base_value (Wrapper v) = v"
| "Base_value (Constant_base k) = k"

fun Base_is_Wrapper :: "'a Base \<Rightarrow> bool" where
  "Base_is_Wrapper (Wrapper v) = True"
| "Base_is_Wrapper (Constant_base k) = False"

section \<open>The four bound predicates\<close>

text \<open>
  \<^verbatim>\<open>TYPE_SAFE_DETAIL_MAKE(Name, Op)\<close> is expanded four times:
  \<^verbatim>\<open>(less, <)\<close>, \<^verbatim>\<open>(less_equal, <=)\<close>, \<^verbatim>\<open>(greater, >)\<close>, \<^verbatim>\<open>(greater_equal, >=)\<close>.
\<close>

datatype predicate_name = Less | Less_equal | Greater | Greater_equal

fun Op :: "predicate_name \<Rightarrow> 'a::ord \<Rightarrow> 'a \<Rightarrow> bool" where
  "Op Less u k = (u < k)"
| "Op Less_equal u k = (u \<le> k)"
| "Op Greater u k = (u > k)"
| "Op Greater_equal u k = (u \<ge> k)"

text \<open>An object of class \<^verbatim>\<open>Name<T, BoundConstant>\<close>: which class it is, and its base.\<close>

record 'a predicate =
  name :: predicate_name
  base :: "'a Base"

text \<open>
  \<^verbatim>\<open>explicit Name()\<close> with \<^verbatim>\<open>static_assert(!is_dynamic, "constructor requires static bound")\<close>.
\<close>

fun predicate_default :: "predicate_name \<Rightarrow> 'a bound_constant \<Rightarrow> build_error + 'a predicate" where
  "predicate_default n (static_constant k) = Inr \<lparr>name = n, base = Constant_base k\<rparr>"
| "predicate_default n dynamic_bound =
     Inl (static_assert_failed ''constructor requires static bound'')"

text \<open>
  \<^verbatim>\<open>explicit Name(const T& bound) : Base{bound}\<close> and
  \<^verbatim>\<open>explicit Name(T&& bound) : Base{std::move(bound)}\<close>, both with
  \<^verbatim>\<open>static_assert(is_dynamic, "constructor requires dynamic bound")\<close>. The two overloads
  differ in copying or moving the argument into the base, which is the same value.
\<close>

fun predicate_bound :: "predicate_name \<Rightarrow> 'a bound_constant \<Rightarrow> 'a \<Rightarrow> build_error + 'a predicate" where
  "predicate_bound n dynamic_bound bound = Inr \<lparr>name = n, base = Wrapper bound\<rparr>"
| "predicate_bound n (static_constant k) bound =
     Inl (static_assert_failed ''constructor requires dynamic bound'')"

text \<open>\<^verbatim>\<open>const T& get_bound() const noexcept { return Base::value; }\<close>\<close>

definition get_bound :: "'a predicate \<Rightarrow> 'a" where
  "get_bound p = Base_value (base p)"

text \<open>\<^verbatim>\<open>bool operator()(const U& u) const { return u Op get_bound(); }\<close>\<close>

definition predicate_call :: "'a::ord predicate \<Rightarrow> 'a \<Rightarrow> bool" where
  "predicate_call p u = Op (name p) u (get_bound p)"

section \<open>Intervals\<close>

text \<open>\<^verbatim>\<open>detail::upper_bound_t\<close> and \<^verbatim>\<open>detail::lower_bound_t\<close> choose the predicate class.\<close>

definition upper_bound_t :: "bool \<Rightarrow> predicate_name" where
  "upper_bound_t Inclusive = (if Inclusive then Less_equal else Less)"

definition lower_bound_t :: "bool \<Rightarrow> predicate_name" where
  "lower_bound_t Inclusive = (if Inclusive then Greater_equal else Greater)"

definition "open" :: bool where
  "open = False"

definition closed :: bool where
  "closed = True"

text \<open>
  An object of class \<^verbatim>\<open>bounded<T, LowerInclusive, UpperInclusive, LowerConstant, UpperConstant>\<close>
  consists of its two base class subobjects, reached by \<^verbatim>\<open>lower()\<close> and \<^verbatim>\<open>upper()\<close>.
\<close>

record 'a bounded =
  lower :: "'a predicate"
  upper :: "'a predicate"

text \<open>
  Instantiating the class evaluates
  \<^verbatim>\<open>static_assert(lower_is_dynamic==upper_is_dynamic, "mixed static and dynamic bounds is unsupported")\<close>.
\<close>

definition bounded_class :: "'a bound_constant \<Rightarrow> 'a bound_constant \<Rightarrow> build_error + unit" where
  "bounded_class LowerConstant UpperConstant =
     (if is_dynamic LowerConstant = is_dynamic UpperConstant then Inr ()
      else Inl (static_assert_failed ''mixed static and dynamic bounds is unsupported''))"

text \<open>
  \<^verbatim>\<open>bounded()\<close>. Its two \<^verbatim>\<open>enable_if\<close> parameters name \<^verbatim>\<open>LC::value_type\<close> and
  \<^verbatim>\<open>UC::value_type\<close>, which \<^verbatim>\<open>dynamic_bound\<close> does not have: the constructor is then
  no candidate. For a constant the value type is \<open>'a\<close>, so \<^verbatim>\<open>decay_same\<close> holds. The
  bases are default-constructed, then the body asserts
  \<^verbatim>\<open>!lower_is_dynamic && !upper_is_dynamic\<close>.
\<close>

definition bounded_default ::
  "bool \<Rightarrow> bool \<Rightarrow> 'a bound_constant \<Rightarrow> 'a bound_constant \<Rightarrow> build_error + 'a bounded" where
  "bounded_default LowerInclusive UpperInclusive LowerConstant UpperConstant =
     (case bounded_class LowerConstant UpperConstant of
        Inl e \<Rightarrow> Inl e
      | Inr _ \<Rightarrow>
          if is_dynamic LowerConstant \<or> is_dynamic UpperConstant then Inl no_matching_function
          else (case predicate_default (lower_bound_t LowerInclusive) LowerConstant of
                  Inl e \<Rightarrow> Inl e
                | Inr l \<Rightarrow>
                    (case predicate_default (upper_bound_t UpperInclusive) UpperConstant of
                       Inl e \<Rightarrow> Inl e
                     | Inr u \<Rightarrow>
                         if \<not> is_dynamic LowerConstant \<and> \<not> is_dynamic UpperConstant
                         then Inr \<lparr>lower = l, upper = u\<rparr>
                         else Inl (static_assert_failed ''constructor requires static bounds''))))"

text \<open>
  \<^verbatim>\<open>bounded(U1&& lower, U2&& upper) : Lower(std::forward<U1>(lower)), Upper(std::forward<U2>(upper))\<close>
  with \<^verbatim>\<open>static_assert(upper_is_dynamic && lower_is_dynamic, "constructor requires dynamic bounds")\<close>.
  Both arguments have type \<open>'a\<close>, so the two \<^verbatim>\<open>decay_same\<close> conditions hold. Nothing
  compares \<^verbatim>\<open>lower\<close> with \<^verbatim>\<open>upper\<close>.
\<close>

definition bounded_ctor ::
  "bool \<Rightarrow> bool \<Rightarrow> 'a bound_constant \<Rightarrow> 'a bound_constant \<Rightarrow> 'a \<Rightarrow> 'a \<Rightarrow> build_error + 'a bounded" where
  "bounded_ctor LowerInclusive UpperInclusive LowerConstant UpperConstant lo hi =
     (case bounded_class LowerConstant UpperConstant of
        Inl e \<Rightarrow> Inl e
      | Inr _ \<Rightarrow>
          (case predicate_bound (lower_bound_t LowerInclusive) LowerConstant lo of
             Inl e \<Rightarrow> Inl e
           | Inr l \<Rightarrow>
               (case predicate_bound (upper_bound_t UpperInclusive) UpperConstant hi of
                  Inl e \<Rightarrow> Inl e
                | Inr u \<Rightarrow>
                    if is_dynamic UpperConstant \<and> is_dynamic LowerConstant
                    then Inr \<lparr>lower = l, upper = u\<rparr>
                    else Inl (static_assert_failed ''constructor requires dynamic bounds''))))"

text \<open>
  \<^verbatim>\<open>bool operator()(const U& u) const { return lower()(u) && upper()(u); }\<close>
  The built-in \<^verbatim>\<open>&&\<close> evaluates its left operand first and its right operand only if
  the left one is true. The evaluation is recorded as the list of component predicates
  that were called, in order, next to the result.
\<close>

datatype component = Lower_predicate | Upper_predicate

definition bounded_eval :: "'a::ord bounded \<Rightarrow> 'a \<Rightarrow> bool \<times> component list" where
  "bounded_eval b u =
     (if predicate_call (lower b) u
      then (predicate_call (upper b) u, [Lower_predicate, Upper_predicate])
      else (False, [Lower_predicate]))"

definition bounded_call :: "'a::ord bounded \<Rightarrow> 'a \<Rightarrow> bool" where
  "bounded_call b u = fst (bounded_eval b u)"

text \<open>\<^verbatim>\<open>get_lower_bound()\<close> and \<^verbatim>\<open>get_upper_bound()\<close>.\<close>

definition get_lower_bound :: "'a bounded \<Rightarrow> 'a" where
  "get_lower_bound b = get_bound (lower b)"

definition get_upper_bound :: "'a bounded \<Rightarrow> 'a" where
  "get_upper_bound b = get_bound (upper b)"

text \<open>
  \<^verbatim>\<open>open_interval<T> = bounded<T, open, open>\<close> and
  \<^verbatim>\<open>closed_interval<T> = bounded<T, closed, closed>\<close>, both with the default
  \<^verbatim>\<open>dynamic_bound\<close> for the two constants, built by the two-argument constructor.
\<close>

definition open_interval :: "'a \<Rightarrow> 'a \<Rightarrow> build_error + 'a bounded" where
  "open_interval lo hi = bounded_ctor open open dynamic_bound dynamic_bound lo hi"

definition closed_interval :: "'a \<Rightarrow> 'a \<Rightarrow> build_error + 'a bounded" where
  "closed_interval lo hi = bounded_ctor closed closed dynamic_bound dynamic_bound lo hi"

text \<open>Whether an object has the class \<^verbatim>\<open>Name<T>\<close>, that is \<^verbatim>\<open>Name<T, dynamic_bound>\<close>.\<close>

definition has_class :: "predicate_name \<Rightarrow> 'a predicate \<Rightarrow> bool" where
  "has_class n p = (name p = n \<and> Base_is_Wrapper (base p))"

text \<open>Whether an object has the class \<^verbatim>\<open>closed_interval<T>\<close>.\<close>

definition is_closed_interval :: "'a bounded \<Rightarrow> bool" where
  "is_closed_interval b =
     (has_class (lower_bound_t closed) (lower b) \<and> has_class (upper_bound_t closed) (upper b))"

section \<open>Clamping\<close>

text \<open>
  \<^verbatim>\<open>
  template <typename T, typename U>
  void clamp(const constraints::closed_interval<T>& interval, U& val)
  {
      if (val < interval.get_lower_bound())
          val = static_cast<U>(interval.get_lower_bound());
      else if (val > interval.get_upper_bound())
          val = static_cast<U>(interval.get_upper_bound());
  }
  \<close>
  The only overload takes a \<^verbatim>\<open>closed_interval<T>\<close>; for an object of another class no
  function matches. The result is the content of \<^verbatim>\<open>val\<close> after the call. The conversion
  \<^verbatim>\<open>static_cast<U>\<close> belongs to the language and is a parameter; it is the identity when
  \<^verbatim>\<open>U\<close> is \<^verbatim>\<open>T\<close>.
\<close>

definition clamp :: "('a \<Rightarrow> 'a) \<Rightarrow> 'a::ord bounded \<Rightarrow> 'a \<Rightarrow> build_error + 'a" where
  "clamp static_cast_U interval val =
     (if \<not> is_closed_interval interval then Inl no_matching_function
      else if val < get_lower_bound interval then Inr (static_cast_U (get_lower_bound interval))
      else if val > get_upper_bound interval then Inr (static_cast_U (get_upper_bound interval))
      else Inr val)"

text \<open>
  \<^verbatim>\<open>clamping_verifier::verify\<close> has three overloads, chosen by the class of the
  constraint: \<^verbatim>\<open>less_equal<T>\<close>, \<^verbatim>\<open>greater_equal<T>\<close> and \<^verbatim>\<open>closed_interval<T>\<close>.
  The first two have the same body,
  \<^verbatim>\<open>if (!p(val)) val = static_cast<Value>(p.get_bound());\<close>
  and the third calls \<^verbatim>\<open>clamp(interval, val)\<close>, where \<^verbatim>\<open>U\<close> is \<^verbatim>\<open>Value\<close>.
\<close>

datatype 'a constraint = Predicate_constraint "'a predicate" | Bounded_constraint "'a bounded"

fun verify :: "('a \<Rightarrow> 'a) \<Rightarrow> 'a::ord \<Rightarrow> 'a constraint \<Rightarrow> build_error + 'a" where
  "verify static_cast_Value val (Predicate_constraint p) =
     (if has_class Less_equal p
      then Inr (if \<not> predicate_call p val then static_cast_Value (get_bound p) else val)
      else if has_class Greater_equal p
      then Inr (if \<not> predicate_call p val then static_cast_Value (get_bound p) else val)
      else Inl no_matching_function)"
| "verify static_cast_Value val (Bounded_constraint interval) =
     clamp static_cast_Value interval val"

section \<open>The value type of the factories\<close>

text \<open>
  \<^verbatim>\<open>
  template <typename T, typename U1, typename U2>
  struct bounded_value_type_impl
  {
      static_assert(!std::is_same<T, U1>::value && !std::is_same<U1, U2>::value,
                    "make_bounded() called with mismatching types");
  };

  template <typename T>
  struct bounded_value_type_impl<T, T, T>
  {
      using type = T;
  };
  \<close>
  Types are values of an arbitrary type \<open>'ty\<close> of type names. The partial specialisation
  is chosen when the three arguments are the same type and has the member \<^verbatim>\<open>type\<close>;
  otherwise the primary template is instantiated, which evaluates its assertion and has
  no member. The result is the diagnostic, or the member \<^verbatim>\<open>type\<close> if there is one.
\<close>

definition bounded_value_type_impl :: "'ty \<Rightarrow> 'ty \<Rightarrow> 'ty \<Rightarrow> build_error + 'ty option" where
  "bounded_value_type_impl T U1 U2 =
     (if T = U1 \<and> U1 = U2 then Inr (Some T)
      else if T \<noteq> U1 \<and> U1 \<noteq> U2 then Inr None
      else Inl (static_assert_failed ''make_bounded() called with mismatching types''))"

text \<open>
  \<^verbatim>\<open>detail::bounded_value_type<T, U1, U2>\<close> names
  \<^verbatim>\<open>bounded_value_type_impl<decay<T>, decay<U1>, decay<U2>>::type\<close>. It stands in the
  return type of \<^verbatim>\<open>make_bounded\<close>, \<^verbatim>\<open>make_bounded_exclusive\<close> and \<^verbatim>\<open>make_clamped\<close>:
  where the member is missing, the function template is no candidate for the call.
  \<^verbatim>\<open>std::decay\<close> belongs to the standard library and is a parameter.
\<close>

definition bounded_value_type :: "('ty \<Rightarrow> 'ty) \<Rightarrow> 'ty \<Rightarrow> 'ty \<Rightarrow> 'ty \<Rightarrow> build_error + 'ty" where
  "bounded_value_type decay T U1 U2 =
     (case bounded_value_type_impl (decay T) (decay U1) (decay U2) of
        Inl e \<Rightarrow> Inl e
      | Inr None \<Rightarrow> Inl no_matching_function
      | Inr (Some value_type) \<Rightarrow> Inr value_type)"

section \<open>Value types of concrete calls\<close>

text \<open>
  Integer values are \<open>int\<close>; comparing a \<^verbatim>\<open>signed char\<close> with an \<^verbatim>\<open>int\<close> promotes it
  without changing its value. \<^verbatim>\<open>static_cast<signed char>\<close> of an \<^verbatim>\<open>int\<close> keeps the value
  modulo \<open>2\<^sup>8\<close> in the range from -128 to 127.
\<close>

definition static_cast_signed_char :: "int \<Rightarrow> int" where
  "static_cast_signed_char x = (x + 128) mod 256 - 128"

text \<open>
  A floating-point type has, next to its numbers, the value NaN, and every comparison
  with NaN is false.
\<close>

datatype 'a or_NaN = NaN | Number 'a

instantiation or_NaN :: (ord) ord
begin

fun less_eq_or_NaN :: "'a or_NaN \<Rightarrow> 'a or_NaN \<Rightarrow> bool" where
  "less_eq_or_NaN (Number a) (Number b) = (a \<le> b)"
| "less_eq_or_NaN NaN y = False"
| "less_eq_or_NaN x NaN = False"

fun less_or_NaN :: "'a or_NaN \<Rightarrow> 'a or_NaN \<Rightarrow> bool" where
  "less_or_NaN (Number a) (Number b) = (a < b)"
| "less_or_NaN NaN y = False"
| "less_or_NaN x NaN = False"

instance ..

end

text \<open>
  Values of type \<^verbatim>\<open>int\<close> and \<^verbatim>\<open>unsigned int\<close>, both of 32 bits. Two \<^verbatim>\<open>int\<close> are
  compared as they are; when one operand is \<^verbatim>\<open>unsigned int\<close>, the usual arithmetic
  conversions turn the other into \<^verbatim>\<open>unsigned int\<close>, that is its value modulo \<open>2\<^sup>3\<^sup>2\<close>.
\<close>

datatype arith = Signed int | Unsigned int

fun to_unsigned :: "arith \<Rightarrow> int" where
  "to_unsigned (Signed i) = i mod 2 ^ 32"
| "to_unsigned (Unsigned n) = n"

instantiation arith :: ord
begin

fun less_eq_arith :: "arith \<Rightarrow> arith \<Rightarrow> bool" where
  "less_eq_arith (Signed a) (Signed b) = (a \<le> b)"
| "less_eq_arith x y = (to_unsigned x \<le> to_unsigned y)"

fun less_arith :: "arith \<Rightarrow> arith \<Rightarrow> bool" where
  "less_arith (Signed a) (Signed b) = (a < b)"
| "less_arith x y = (to_unsigned x < to_unsigned y)"

instance ..

end

section \<open>Auxiliary facts\<close>

lemma predicate_default_static:
  "predicate_default n (static_constant k) = Inr p \<Longrightarrow> name p = n \<and> get_bound p = k"
  by (auto simp: get_bound_def)

lemma predicate_bound_dynamic:
  "predicate_bound n dynamic_bound k = Inr p \<Longrightarrow> name p = n \<and> get_bound p = k"
  by (auto simp: get_bound_def)

lemma bounded_ctor_dynamic:
  "bounded_ctor LI UI dynamic_bound dynamic_bound lo hi =
     Inr \<lparr>lower = \<lparr>name = lower_bound_t LI, base = Wrapper lo\<rparr>,
          upper = \<lparr>name = upper_bound_t UI, base = Wrapper hi\<rparr>\<rparr>"
  by (simp add: bounded_ctor_def bounded_class_def)

lemma closed_interval_eq:
  "closed_interval lo hi =
     Inr \<lparr>lower = \<lparr>name = Greater_equal, base = Wrapper lo\<rparr>,
          upper = \<lparr>name = Less_equal, base = Wrapper hi\<rparr>\<rparr>"
  by (simp add: closed_interval_def bounded_ctor_dynamic closed_def lower_bound_t_def
      upper_bound_t_def)

lemma open_interval_eq:
  "open_interval lo hi =
     Inr \<lparr>lower = \<lparr>name = Greater, base = Wrapper lo\<rparr>,
          upper = \<lparr>name = Less, base = Wrapper hi\<rparr>\<rparr>"
  by (simp add: open_interval_def bounded_ctor_dynamic open_def lower_bound_t_def
      upper_bound_t_def)

lemma bounded_call_eq:
  "bounded_call b u = (predicate_call (lower b) u \<and> predicate_call (upper b) u)"
  by (simp add: bounded_call_def bounded_eval_def)

lemma Base_is_Wrapper_value: "Base_is_Wrapper B \<Longrightarrow> B = Wrapper (Base_value B)"
  by (cases B) simp_all

text \<open>Every object of class \<^verbatim>\<open>closed_interval<T>\<close> is what the constructor builds from its bounds.\<close>

lemma is_closed_interval_ctor:
  assumes "is_closed_interval i"
  shows "closed_interval (get_lower_bound i) (get_upper_bound i) = Inr i"
proof -
  from assms have l: "name (lower i) = Greater_equal" "base (lower i) = Wrapper (get_lower_bound i)"
    and u: "name (upper i) = Less_equal" "base (upper i) = Wrapper (get_upper_bound i)"
    by (simp_all add: is_closed_interval_def has_class_def closed_def lower_bound_t_def
        upper_bound_t_def get_lower_bound_def get_upper_bound_def get_bound_def
        Base_is_Wrapper_value)
  have "lower i = \<lparr>name = Greater_equal, base = Wrapper (get_lower_bound i)\<rparr>"
    using l by (cases "lower i") simp
  moreover have "upper i = \<lparr>name = Less_equal, base = Wrapper (get_upper_bound i)\<rparr>"
    using u by (cases "upper i") simp
  ultimately show ?thesis
    by (cases i) (simp add: closed_interval_eq)
qed

lemma closed_interval_is_closed:
  "closed_interval lo hi = Inr i \<Longrightarrow>
     is_closed_interval i \<and> get_lower_bound i = lo \<and> get_upper_bound i = hi"
  by (auto simp: closed_interval_eq is_closed_interval_def has_class_def closed_def
      lower_bound_t_def upper_bound_t_def get_lower_bound_def get_upper_bound_def get_bound_def)

lemma closed_call:
  "is_closed_interval i \<Longrightarrow>
     bounded_call i u = (u \<ge> get_lower_bound i \<and> u \<le> get_upper_bound i)"
  by (simp add: is_closed_interval_def has_class_def closed_def lower_bound_t_def
      upper_bound_t_def bounded_call_eq predicate_call_def get_lower_bound_def
      get_upper_bound_def)

section \<open>Properties\<close>

text \<open>
  C1. For each of the four predicates \<^verbatim>\<open>less\<close>, \<^verbatim>\<open>less_equal\<close>, \<^verbatim>\<open>greater\<close>,
  \<^verbatim>\<open>greater_equal\<close> with bound \<open>k\<close>, built with a static bound (by the default
  constructor) or with a dynamic bound (by the one-argument constructor), and for every
  candidate \<open>x\<close>, the call operator returns exactly \<open>x < k\<close>, \<open>x \<le> k\<close>, \<open>x > k\<close>,
  \<open>x \<ge> k\<close> respectively. The operator is a function of the object and the candidate
  alone: it changes nothing and a repeated call gives the same result.
\<close>

theorem predicate_call_relation:
  fixes x k :: "'a::ord"
  shows "(\<exists>p. predicate_default Less (static_constant k) = Inr p \<and> predicate_call p x = (x < k))
       \<and> (\<exists>p. predicate_default Less_equal (static_constant k) = Inr p \<and> predicate_call p x = (x \<le> k))
       \<and> (\<exists>p. predicate_default Greater (static_constant k) = Inr p \<and> predicate_call p x = (x > k))
       \<and> (\<exists>p. predicate_default Greater_equal (static_constant k) = Inr p \<and> predicate_call p x = (x \<ge> k))
       \<and> (\<exists>p. predicate_bound Less dynamic_bound k = Inr p \<and> predicate_call p x = (x < k))
       \<and> (\<exists>p. predicate_bound Less_equal dynamic_bound k = Inr p \<and> predicate_call p x = (x \<le> k))
       \<and> (\<exists>p. predicate_bound Greater dynamic_bound k = Inr p \<and> predicate_call p x = (x > k))
       \<and> (\<exists>p. predicate_bound Greater_equal dynamic_bound k = Inr p \<and> predicate_call p x = (x \<ge> k))"
  by (simp add: predicate_call_def get_bound_def)

text \<open>
  C2. For every interval object \<open>b\<close> (any two component predicates) and every candidate
  \<open>u\<close>, the call operator returns the conjunction of the lower and the upper predicate on
  \<open>u\<close>; the lower predicate is called first, and the upper predicate is called exactly
  when the lower predicate holds, so it is not evaluated when the lower one fails.
\<close>

theorem bounded_call_conjunction:
  "bounded_call b u = (predicate_call (lower b) u \<and> predicate_call (upper b) u)
   \<and> hd (snd (bounded_eval b u)) = Lower_predicate
   \<and> (Upper_predicate \<in> set (snd (bounded_eval b u))) = predicate_call (lower b) u"
  by (simp add: bounded_call_def bounded_eval_def)

text \<open>
  C4. The closed interval with bounds 2 and 5 contains 2 and 5 and contains neither 1
  nor 6; the open interval with the same bounds contains neither 2 nor 5 and contains 3.
\<close>

theorem interval_2_5_contains:
  "(\<exists>c. closed_interval (2::int) 5 = Inr c
        \<and> bounded_call c 2 \<and> bounded_call c 5 \<and> \<not> bounded_call c 1 \<and> \<not> bounded_call c 6)
   \<and> (\<exists>i. open_interval (2::int) 5 = Inr i
        \<and> \<not> bounded_call i 2 \<and> \<not> bounded_call i 5 \<and> bounded_call i 3)"
  by (simp add: closed_interval_eq open_interval_eq bounded_call_eq predicate_call_def
      get_bound_def)

text \<open>
  C3. For the closed interval with bounds 2 and 5, \<^verbatim>\<open>clamp\<close> turns 10 into 5, -1 into
  2 and leaves 3 as it is. For every object \<open>i\<close> of class \<^verbatim>\<open>closed_interval<T>\<close> and
  every value \<open>v\<close>, one call of \<^verbatim>\<open>clamp\<close> does exactly one of three things, decided by
  two comparisons and without repetition: \<open>v\<close> is below the lower bound and becomes the
  (converted) lower bound; or it is not, is above the upper bound and becomes the
  (converted) upper bound; or it is neither and stays.
\<close>

theorem clamp_one_branch:
  fixes v :: "'a::ord"
  shows "(\<exists>c. closed_interval (2::int) 5 = Inr c
            \<and> clamp id c 10 = Inr 5 \<and> clamp id c (- 1) = Inr 2 \<and> clamp id c 3 = Inr 3)
       \<and> (is_closed_interval i \<longrightarrow>
            (v < get_lower_bound i \<and> clamp cast i v = Inr (cast (get_lower_bound i)))
          \<or> (\<not> v < get_lower_bound i \<and> v > get_upper_bound i
                \<and> clamp cast i v = Inr (cast (get_upper_bound i)))
          \<or> (\<not> v < get_lower_bound i \<and> \<not> v > get_upper_bound i \<and> clamp cast i v = Inr v))"
proof -
  have "\<exists>c. closed_interval (2::int) 5 = Inr c
            \<and> clamp id c 10 = Inr 5 \<and> clamp id c (- 1) = Inr 2 \<and> clamp id c 3 = Inr 3"
    by (simp add: closed_interval_eq clamp_def is_closed_interval_def has_class_def closed_def
        lower_bound_t_def upper_bound_t_def get_lower_bound_def get_upper_bound_def
        get_bound_def)
  moreover have "is_closed_interval i \<longrightarrow>
            (v < get_lower_bound i \<and> clamp cast i v = Inr (cast (get_lower_bound i)))
          \<or> (\<not> v < get_lower_bound i \<and> v > get_upper_bound i
                \<and> clamp cast i v = Inr (cast (get_upper_bound i)))
          \<or> (\<not> v < get_lower_bound i \<and> \<not> v > get_upper_bound i \<and> clamp cast i v = Inr v)"
    by (simp add: clamp_def)
  ultimately show ?thesis by (rule conjI)
qed

theorem clamp_one_branch_witness:
  "is_closed_interval
     \<lparr>lower = \<lparr>name = Greater_equal, base = Wrapper (2::int)\<rparr>,
      upper = \<lparr>name = Less_equal, base = Wrapper 5\<rparr>\<rparr>
   \<and> clamp id \<lparr>lower = \<lparr>name = Greater_equal, base = Wrapper (2::int)\<rparr>,
               upper = \<lparr>name = Less_equal, base = Wrapper 5\<rparr>\<rparr> 10 = Inr 5"
  using clamp_one_branch
    [of "\<lparr>lower = \<lparr>name = Greater_equal, base = Wrapper (2::int)\<rparr>,
          upper = \<lparr>name = Less_equal, base = Wrapper 5\<rparr>\<rparr>" 10 id]
  by (simp add: is_closed_interval_def has_class_def closed_def lower_bound_t_def
      upper_bound_t_def get_lower_bound_def get_upper_bound_def get_bound_def)

text \<open>
  C5. For a totally ordered value type: \<^verbatim>\<open>clamping_verifier::verify\<close> on a
  \<^verbatim>\<open>less_equal<T>\<close> predicate with bound \<open>k\<close> finds the predicate violated exactly when
  the value is greater than \<open>k\<close>, and then the value becomes \<^verbatim>\<open>static_cast<Value>\<close> of
  \<open>k\<close>, which is \<open>k\<close> itself when \<^verbatim>\<open>Value\<close> is \<^verbatim>\<open>T\<close>; otherwise the value stays.
  On a \<^verbatim>\<open>greater_equal<T>\<close> predicate with bound \<open>k\<close> the same holds with "less than
  \<open>k\<close>".
\<close>

theorem clamping_verifier_verify:
  fixes v k :: "'a::linorder"
  shows "(\<exists>p. predicate_bound Less_equal dynamic_bound k = Inr p
            \<and> (\<not> predicate_call p v) = (v > k)
            \<and> verify cast v (Predicate_constraint p) = Inr (if v > k then cast k else v)
            \<and> verify id v (Predicate_constraint p) = Inr (if v > k then k else v))
       \<and> (\<exists>p. predicate_bound Greater_equal dynamic_bound k = Inr p
            \<and> (\<not> predicate_call p v) = (v < k)
            \<and> verify cast v (Predicate_constraint p) = Inr (if v < k then cast k else v)
            \<and> verify id v (Predicate_constraint p) = Inr (if v < k then k else v))"
  by (auto simp: has_class_def predicate_call_def get_bound_def)

text \<open>
  The statement fails without these two provisions. With \<^verbatim>\<open>Value\<close> = \<^verbatim>\<open>signed char\<close>,
  \<^verbatim>\<open>verify\<close> of the value 10 on \<^verbatim>\<open>greater_equal<int>(300)\<close> stores 44, which is not the
  bound. With a floating-point \<^verbatim>\<open>T\<close>, \<^verbatim>\<open>verify\<close> of NaN on \<^verbatim>\<open>less_equal<T>(5)\<close>
  stores the bound although NaN is not greater than 5.
\<close>

theorem clamping_verifier_verify_counterexample:
  "predicate_bound Greater_equal dynamic_bound (300::int)
     = Inr \<lparr>name = Greater_equal, base = Wrapper 300\<rparr>
   \<and> verify static_cast_signed_char 10
       (Predicate_constraint \<lparr>name = Greater_equal, base = Wrapper (300::int)\<rparr>) = Inr 44
   \<and> get_bound \<lparr>name = Greater_equal, base = Wrapper (300::int)\<rparr> = 300
   \<and> predicate_bound Less_equal dynamic_bound (Number (5::int))
     = Inr \<lparr>name = Less_equal, base = Wrapper (Number 5)\<rparr>
   \<and> \<not> NaN > Number (5::int)
   \<and> verify id NaN (Predicate_constraint \<lparr>name = Less_equal, base = Wrapper (Number (5::int))\<rparr>)
     = Inr (Number 5)"
  by (simp add: has_class_def predicate_call_def get_bound_def static_cast_signed_char_def)

text \<open>
  C7. Instantiating \<^verbatim>\<open>bounded\<close> with one static and one dynamic bound fails its
  assertion "mixed static and dynamic bounds is unsupported", and so does each of its
  constructors, whatever the inclusivity flags and the run-time arguments; the class is
  instantiated exactly when both bounds are static or both are dynamic. An object is built
  by the default constructor exactly when both are static and by the two-argument
  constructor exactly when both are dynamic. All of this is decided by the template
  arguments \<open>LC\<close> and \<open>UC\<close>.
\<close>

theorem bounded_mixed_bounds_rejected:
  "(bounded_class LC UC =
      Inl (static_assert_failed ''mixed static and dynamic bounds is unsupported''))
     = (is_dynamic LC \<noteq> is_dynamic UC)
   \<and> (bounded_default LI UI LC UC =
      Inl (static_assert_failed ''mixed static and dynamic bounds is unsupported''))
     = (is_dynamic LC \<noteq> is_dynamic UC)
   \<and> (bounded_ctor LI UI LC UC lo hi =
      Inl (static_assert_failed ''mixed static and dynamic bounds is unsupported''))
     = (is_dynamic LC \<noteq> is_dynamic UC)
   \<and> (bounded_class LC UC = Inr ()) = (is_dynamic LC = is_dynamic UC)
   \<and> (\<exists>b. bounded_default LI UI LC UC = Inr b) = (\<not> is_dynamic LC \<and> \<not> is_dynamic UC)
   \<and> (\<exists>b. bounded_ctor LI UI LC UC lo hi = Inr b) = (is_dynamic LC \<and> is_dynamic UC)"
  by (cases LC; cases UC) (simp_all add: bounded_class_def bounded_default_def bounded_ctor_def)

text \<open>
  C8. For every predicate class \<open>n\<close> and bound representation \<open>BC\<close>: the constructor
  without argument builds an object exactly when \<open>BC\<close> is static, and fails the assertion
  "constructor requires static bound" exactly when it is dynamic; the constructor with
  one argument (taken by reference or moved) builds an object exactly when \<open>BC\<close> is
  dynamic, and fails the assertion "constructor requires dynamic bound" exactly when it is
  static. The outcome depends on the template argument \<open>BC\<close> only, not on the bound
  \<open>k\<close> that is passed.
\<close>

theorem predicate_construction_modes:
  "(\<exists>p. predicate_default n BC = Inr p) = (\<not> is_dynamic BC)
   \<and> (predicate_default n BC = Inl (static_assert_failed ''constructor requires static bound''))
       = is_dynamic BC
   \<and> (\<exists>p. predicate_bound n BC k = Inr p) = is_dynamic BC
   \<and> (predicate_bound n BC k = Inl (static_assert_failed ''constructor requires dynamic bound''))
       = (\<not> is_dynamic BC)"
  by (cases BC) simp_all

text \<open>
  C9. For a totally ordered value type, every object \<open>i\<close> of class
  \<^verbatim>\<open>closed_interval<T>\<close>, every \<^verbatim>\<open>static_cast<U>\<close> that leaves the two bounds of \<open>i\<close>
  unchanged (as when \<^verbatim>\<open>U\<close> is \<^verbatim>\<open>T\<close>) and every value \<open>v\<close>: \<^verbatim>\<open>clamp\<close> returns without
  looking at the order of the two bounds; if the lower bound is less than or equal to the
  upper bound, the interval holds on the value after the call; if the lower bound is
  greater than the upper bound, it does not.
\<close>

theorem clamp_establishes_validity:
  fixes v :: "'a::linorder"
  assumes "is_closed_interval i"
    and "cast (get_lower_bound i) = get_lower_bound i"
    and "cast (get_upper_bound i) = get_upper_bound i"
  shows "\<exists>v'. clamp cast i v = Inr v'
           \<and> (get_lower_bound i \<le> get_upper_bound i \<longrightarrow> bounded_call i v')
           \<and> (get_upper_bound i < get_lower_bound i \<longrightarrow> \<not> bounded_call i v')"
proof -
  let ?lo = "get_lower_bound i" and ?hi = "get_upper_bound i"
  consider (below) "v < ?lo" | (above) "\<not> v < ?lo" "v > ?hi" | (inside) "\<not> v < ?lo" "\<not> v > ?hi"
    by blast
  then show ?thesis
  proof cases
    case below
    then have "clamp cast i v = Inr ?lo"
      using assms by (simp add: clamp_def)
    then show ?thesis
      using assms(1) by (auto simp: closed_call)
  next
    case above
    then have "clamp cast i v = Inr ?hi"
      using assms by (simp add: clamp_def)
    then show ?thesis
      using assms(1) by (auto simp: closed_call)
  next
    case inside
    then have "clamp cast i v = Inr v"
      using assms(1) by (simp add: clamp_def)
    moreover from inside have "?lo \<le> v" "v \<le> ?hi"
      by simp_all
    ultimately show ?thesis
      using assms(1) by (auto simp: closed_call)
  qed
qed

theorem clamp_establishes_validity_witness:
  "is_closed_interval
     \<lparr>lower = \<lparr>name = Greater_equal, base = Wrapper (2::int)\<rparr>,
      upper = \<lparr>name = Less_equal, base = Wrapper 5\<rparr>\<rparr>
   \<and> static_cast_signed_char 2 = 2 \<and> static_cast_signed_char 5 = 5
   \<and> clamp static_cast_signed_char
        \<lparr>lower = \<lparr>name = Greater_equal, base = Wrapper (2::int)\<rparr>,
         upper = \<lparr>name = Less_equal, base = Wrapper 5\<rparr>\<rparr> 10 = Inr 5
   \<and> bounded_call \<lparr>lower = \<lparr>name = Greater_equal, base = Wrapper (2::int)\<rparr>,
                   upper = \<lparr>name = Less_equal, base = Wrapper 5\<rparr>\<rparr> 5
   \<and> is_closed_interval
     \<lparr>lower = \<lparr>name = Greater_equal, base = Wrapper (5::int)\<rparr>,
      upper = \<lparr>name = Less_equal, base = Wrapper 2\<rparr>\<rparr>
   \<and> clamp id \<lparr>lower = \<lparr>name = Greater_equal, base = Wrapper (5::int)\<rparr>,
               upper = \<lparr>name = Less_equal, base = Wrapper 2\<rparr>\<rparr> 3 = Inr 5
   \<and> \<not> bounded_call \<lparr>lower = \<lparr>name = Greater_equal, base = Wrapper (5::int)\<rparr>,
                     upper = \<lparr>name = Less_equal, base = Wrapper 2\<rparr>\<rparr> 5"
proof -
  let ?a = "\<lparr>lower = \<lparr>name = Greater_equal, base = Wrapper (2::int)\<rparr>,
             upper = \<lparr>name = Less_equal, base = Wrapper 5\<rparr>\<rparr>"
  let ?b = "\<lparr>lower = \<lparr>name = Greater_equal, base = Wrapper (5::int)\<rparr>,
             upper = \<lparr>name = Less_equal, base = Wrapper 2\<rparr>\<rparr>"
  have a: "is_closed_interval ?a" and b: "is_closed_interval ?b"
    by (simp_all add: is_closed_interval_def has_class_def closed_def lower_bound_t_def
        upper_bound_t_def)
  have sa: "static_cast_signed_char (get_lower_bound ?a) = get_lower_bound ?a"
      "static_cast_signed_char (get_upper_bound ?a) = get_upper_bound ?a"
    by (simp_all add: static_cast_signed_char_def get_lower_bound_def get_upper_bound_def
        get_bound_def)
  have sb: "id (get_lower_bound ?b) = get_lower_bound ?b"
      "id (get_upper_bound ?b) = get_upper_bound ?b"
    by simp_all
  have ca: "clamp static_cast_signed_char ?a 10 = Inr 5" and cb: "clamp id ?b 3 = Inr 5"
    using a b
    by (simp_all add: clamp_def static_cast_signed_char_def get_lower_bound_def
        get_upper_bound_def get_bound_def)
  have va: "bounded_call ?a 5" and vb: "\<not> bounded_call ?b 5"
    by (simp_all add: bounded_call_eq predicate_call_def get_bound_def)
  have s: "static_cast_signed_char 2 = 2" "static_cast_signed_char 5 = 5"
    by (simp_all add: static_cast_signed_char_def)
  show ?thesis
    using clamp_establishes_validity [OF a sa, of 10] clamp_establishes_validity [OF b sb, of 3]
    by (simp only: a b ca cb va vb s simp_thms)
qed

text \<open>
  The statement fails without these two provisions, although the lower bound is less than
  or equal to the upper bound. With \<^verbatim>\<open>U\<close> = \<^verbatim>\<open>signed char\<close>, \<^verbatim>\<open>clamp\<close> of the value
  10 on the interval from 300 to 400 stores 44, on which the interval fails. With a
  floating-point \<^verbatim>\<open>T\<close>, \<^verbatim>\<open>clamp\<close> on the interval from 2 to 5 leaves NaN as it is,
  and the interval fails on NaN.
\<close>

theorem clamp_establishes_validity_counterexample:
  "closed_interval (300::int) 400
     = Inr \<lparr>lower = \<lparr>name = Greater_equal, base = Wrapper 300\<rparr>,
            upper = \<lparr>name = Less_equal, base = Wrapper 400\<rparr>\<rparr>
   \<and> (300::int) \<le> 400
   \<and> clamp static_cast_signed_char
        \<lparr>lower = \<lparr>name = Greater_equal, base = Wrapper (300::int)\<rparr>,
         upper = \<lparr>name = Less_equal, base = Wrapper 400\<rparr>\<rparr> 10 = Inr 44
   \<and> \<not> bounded_call \<lparr>lower = \<lparr>name = Greater_equal, base = Wrapper (300::int)\<rparr>,
                     upper = \<lparr>name = Less_equal, base = Wrapper 400\<rparr>\<rparr> 44
   \<and> closed_interval (Number (2::int)) (Number 5)
     = Inr \<lparr>lower = \<lparr>name = Greater_equal, base = Wrapper (Number 2)\<rparr>,
            upper = \<lparr>name = Less_equal, base = Wrapper (Number 5)\<rparr>\<rparr>
   \<and> Number (2::int) \<le> Number 5
   \<and> clamp id \<lparr>lower = \<lparr>name = Greater_equal, base = Wrapper (Number (2::int))\<rparr>,
               upper = \<lparr>name = Less_equal, base = Wrapper (Number 5)\<rparr>\<rparr> NaN = Inr NaN
   \<and> \<not> bounded_call \<lparr>lower = \<lparr>name = Greater_equal, base = Wrapper (Number (2::int))\<rparr>,
                     upper = \<lparr>name = Less_equal, base = Wrapper (Number 5)\<rparr>\<rparr> NaN"
  by (simp add: closed_interval_eq clamp_def is_closed_interval_def has_class_def closed_def
      lower_bound_t_def upper_bound_t_def get_lower_bound_def get_upper_bound_def get_bound_def
      bounded_call_eq predicate_call_def static_cast_signed_char_def)

text \<open>
  C10. The two-argument constructor with dynamic bounds builds an object from any two
  arguments, also when the lower one is greater than the upper one, and the object
  reports them as its lower and upper bound. Where the comparisons between the candidates
  and the bounds are transitive and \<open>x < y\<close> excludes \<open>y \<le> x\<close> (as for candidates of
  the bounds' own type, integer or floating-point): when the upper argument is less than
  the lower one, the closed interval holds on no candidate; when the upper argument is
  less than or equal to the lower one, the open interval holds on no candidate.
\<close>

theorem inverted_interval_empty:
  fixes lo hi u :: "'a::ord"
  assumes le_trans: "\<forall>x y z :: 'a. x \<le> y \<longrightarrow> y \<le> z \<longrightarrow> x \<le> z"
    and less_trans: "\<forall>x y z :: 'a. x < y \<longrightarrow> y < z \<longrightarrow> x < z"
    and less_not_ge: "\<forall>x y :: 'a. x < y \<longrightarrow> \<not> y \<le> x"
  shows "(\<exists>i. bounded_ctor LI UI dynamic_bound dynamic_bound lo hi = Inr i
            \<and> get_lower_bound i = lo \<and> get_upper_bound i = hi)
       \<and> (\<exists>i. closed_interval lo hi = Inr i \<and> get_lower_bound i = lo \<and> get_upper_bound i = hi
            \<and> (hi < lo \<longrightarrow> \<not> bounded_call i u))
       \<and> (\<exists>i. open_interval lo hi = Inr i \<and> get_lower_bound i = lo \<and> get_upper_bound i = hi
            \<and> (hi \<le> lo \<longrightarrow> \<not> bounded_call i u))"
proof -
  have closed_empty: "\<not> (lo \<le> u \<and> u \<le> hi)" if "hi < lo"
    using that le_trans less_not_ge by blast
  have open_empty: "\<not> (lo < u \<and> u < hi)" if "hi \<le> lo"
    using that less_trans less_not_ge by blast
  show ?thesis
    using closed_empty open_empty
    by (simp add: bounded_ctor_dynamic closed_interval_eq open_interval_eq bounded_call_eq
        predicate_call_def get_lower_bound_def get_upper_bound_def get_bound_def)
qed

lemma int_laws:
  "\<forall>x y z :: int. x \<le> y \<longrightarrow> y \<le> z \<longrightarrow> x \<le> z"
  "\<forall>x y z :: int. x < y \<longrightarrow> y < z \<longrightarrow> x < z"
  "\<forall>x y :: int. x < y \<longrightarrow> \<not> y \<le> x"
  by simp_all

text \<open>The three laws also hold where NaN is added to a preorder.\<close>

lemma or_NaN_le_trans: "x \<le> y \<Longrightarrow> y \<le> z \<Longrightarrow> x \<le> z" for x y z :: "'a::preorder or_NaN"
  by (cases x; cases y; cases z) (auto intro: order_trans)

lemma or_NaN_less_trans: "x < y \<Longrightarrow> y < z \<Longrightarrow> x < z" for x y z :: "'a::preorder or_NaN"
  by (cases x; cases y; cases z) (auto intro: order_less_trans)

lemma or_NaN_less_not_ge: "x < y \<Longrightarrow> \<not> y \<le> x" for x y :: "'a::preorder or_NaN"
  by (cases x; cases y) (auto simp: less_le_not_le)

lemma or_NaN_laws:
  "\<forall>x y z :: 'a::preorder or_NaN. x \<le> y \<longrightarrow> y \<le> z \<longrightarrow> x \<le> z"
  "\<forall>x y z :: 'a::preorder or_NaN. x < y \<longrightarrow> y < z \<longrightarrow> x < z"
  "\<forall>x y :: 'a::preorder or_NaN. x < y \<longrightarrow> \<not> y \<le> x"
  using or_NaN_le_trans or_NaN_less_trans or_NaN_less_not_ge by blast+

theorem inverted_interval_empty_witness:
  "(\<exists>i. closed_interval (5::int) 2 = Inr i \<and> get_lower_bound i = 5 \<and> get_upper_bound i = 2
        \<and> (2::int) < 5 \<and> \<not> bounded_call i 3)
   \<and> (\<exists>i. open_interval (2::int) 2 = Inr i \<and> get_lower_bound i = 2 \<and> get_upper_bound i = 2
        \<and> (2::int) \<le> 2 \<and> \<not> bounded_call i 2)
   \<and> (\<exists>i. closed_interval (Number (5::int)) (Number 2) = Inr i
        \<and> Number (2::int) < Number 5 \<and> \<not> bounded_call i NaN)"
  using inverted_interval_empty [OF int_laws, of True True 5 2 3]
    inverted_interval_empty [OF int_laws, of True True 2 2 2]
    inverted_interval_empty [OF or_NaN_laws, of True True "Number (5::int)" "Number 2" NaN]
  by (simp add: closed_interval_eq open_interval_eq bounded_ctor_dynamic)

text \<open>
  The statement fails for a candidate of another type. The interval
  \<^verbatim>\<open>closed_interval<int>(1, -1)\<close> is inverted, and on the candidate \<^verbatim>\<open>5u\<close> both
  comparisons are made in \<^verbatim>\<open>unsigned int\<close>, where -1 is the largest value: the interval
  holds on it.
\<close>

theorem inverted_interval_empty_counterexample:
  "closed_interval (Signed 1) (Signed (- 1))
     = Inr \<lparr>lower = \<lparr>name = Greater_equal, base = Wrapper (Signed 1)\<rparr>,
            upper = \<lparr>name = Less_equal, base = Wrapper (Signed (- 1))\<rparr>\<rparr>
   \<and> Signed (- 1) < Signed 1
   \<and> bounded_call \<lparr>lower = \<lparr>name = Greater_equal, base = Wrapper (Signed 1)\<rparr>,
                   upper = \<lparr>name = Less_equal, base = Wrapper (Signed (- 1))\<rparr>\<rparr> (Unsigned 5)"
  by (simp add: closed_interval_eq bounded_call_eq predicate_call_def get_bound_def)

section \<open>The assertion of the factories' value type\<close>

lemma bounded_value_type_well_formed:
  "(\<exists>t. bounded_value_type decay T U1 U2 = Inr t) = (decay T = decay U1 \<and> decay U1 = decay U2)"
  by (simp add: bounded_value_type_def bounded_value_type_impl_def)

lemma bounded_value_type_result:
  "bounded_value_type decay T U1 U2 = Inr t \<Longrightarrow> t = decay T \<and> t = decay U1 \<and> t = decay U2"
  by (auto simp: bounded_value_type_def bounded_value_type_impl_def split: if_splits)

lemma bounded_value_type_assertion:
  "(bounded_value_type decay T U1 U2 =
      Inl (static_assert_failed ''make_bounded() called with mismatching types''))
   = ((decay T = decay U1) \<noteq> (decay U1 = decay U2))"
  by (auto simp: bounded_value_type_def bounded_value_type_impl_def)

lemma bounded_value_type_no_assertion:
  "(bounded_value_type decay T U1 U2 = Inl no_matching_function)
   = (decay T \<noteq> decay U1 \<and> decay U1 \<noteq> decay U2)"
  by (auto simp: bounded_value_type_def bounded_value_type_impl_def)

text \<open>
  C6. The call \<^verbatim>\<open>make_bounded(1, 2L, 3)\<close> deduces \<^verbatim>\<open>T = int\<close>, \<^verbatim>\<open>U1 = long\<close>,
  \<^verbatim>\<open>U2 = int\<close>, which are their own decayed types. The three types do not agree, and the
  build fails; but the assertion of the primary template holds (\<^verbatim>\<open>T\<close> differs from
  \<^verbatim>\<open>U1\<close> and \<^verbatim>\<open>U1\<close> differs from \<^verbatim>\<open>U2\<close>), so the failure is the missing member
  \<^verbatim>\<open>type\<close>, not the message "make_bounded() called with mismatching types". The call
  \<^verbatim>\<open>make_bounded(1, 2, 3L)\<close> does fail with that message.
\<close>

theorem bounded_value_type_int_long_int:
  "bounded_value_type_impl ''int'' ''long'' ''int'' = Inr None
   \<and> bounded_value_type (\<lambda>t. t) ''int'' ''long'' ''int'' = Inl no_matching_function
   \<and> bounded_value_type (\<lambda>t. t) ''int'' ''long'' ''int''
       \<noteq> Inl (static_assert_failed ''make_bounded() called with mismatching types'')
   \<and> bounded_value_type (\<lambda>t. t) ''int'' ''int'' ''long''
       = Inl (static_assert_failed ''make_bounded() called with mismatching types'')"
  by (simp add: bounded_value_type_def bounded_value_type_impl_def)

end
